theory Spec2Isabelle
  imports
    Complex_Main
    "HOL-Library.Sublist"
    "HOL-Library.Product_Lexorder"
begin

section \<open>Python values shared by the retrieval code\<close>

text \<open>
  Exceptions are values. The first group is what the code and the libraries it calls
  raise; the second group names the failure kinds of the specification's error taxonomy,
  so that a statement can say that a call does or does not end in one of them.
\<close>

datatype error =
    AssertionError
  | IndexError
  | KeyError string
  | ValueError
  | RuntimeError
  | JSONDecodeError
  | RecursionError
  | BadRequestError string
  | OtherError string
  | AlignmentError
  | DimensionMismatchError
  | CorruptIndexError
  | DegenerateVectorError
  | ConfigurationError

text \<open>
  Python's slice \<open>xs[i:j]\<close> for integer bounds: a negative bound counts from the end,
  and both bounds are clamped to the list.
\<close>

definition py_bound :: "nat \<Rightarrow> int \<Rightarrow> nat" where
  "py_bound n i = (if i < 0 then nat (max (int n + i) 0) else min (nat i) n)"

definition py_slice :: "'a list \<Rightarrow> int \<Rightarrow> int \<Rightarrow> 'a list" where
  "py_slice xs i j =
     (let lo = py_bound (length xs) i; hi = py_bound (length xs) j
      in take (hi - lo) (drop lo xs))"

text \<open>\<open>text.replace("\n", " ")\<close>: every line feed becomes a blank.\<close>

definition replace_newlines :: "string \<Rightarrow> string" where
  "replace_newlines text = map (\<lambda>c. if c = CHR 0x0A then CHR '' '' else c) text"

section \<open>Tokenized chunker (\<open>chunk_by_tokens\<close>, both ingestion scripts)\<close>

text \<open>
  The two scripts hold the same function text. The tokenizer \<open>ENC\<close> is the external
  library tiktoken; its \<open>encode\<close> and \<open>decode\<close> are parameters \<open>enc\<close> and \<open>dec\<close>.

  \<open>chunk_loop\<close> is the \<open>while start < len(tokens)\<close> loop. It collects the token
  windows \<open>tokens[start:end]\<close>; \<open>chunk_by_tokens\<close> decodes each of them, which is what
  the loop body does window by window. The loop has no other exit, so a run that never
  leaves it is the value \<open>None\<close>.
\<close>

partial_function (option) chunk_loop ::
  "'t list \<Rightarrow> int \<Rightarrow> int \<Rightarrow> int \<Rightarrow> 't list list \<Rightarrow> 't list list option"
where
  "chunk_loop tokens max_tokens overlap start chunks =
     (if start < int (length tokens) then
        (let end = min (start + max_tokens) (int (length tokens));
             chunk_toks = py_slice tokens start end
         in chunk_loop tokens max_tokens overlap (start + (max_tokens - overlap))
              (chunks @ [chunk_toks]))
      else Some chunks)"

declare chunk_loop.simps [code]

definition chunk_windows :: "'t list \<Rightarrow> int \<Rightarrow> int \<Rightarrow> 't list list option" where
  "chunk_windows tokens max_tokens overlap = chunk_loop tokens max_tokens overlap 0 []"

definition chunk_by_tokens ::
  "(string \<Rightarrow> 't list) \<Rightarrow> ('t list \<Rightarrow> string) \<Rightarrow> string \<Rightarrow> int \<Rightarrow> int \<Rightarrow> string list option"
where
  "chunk_by_tokens enc dec text max_tokens overlap =
     map_option (map dec) (chunk_windows (enc (replace_newlines text)) max_tokens overlap)"

text \<open>The token counts of the chunks: the lengths of the windows that were decoded.\<close>

definition chunk_token_counts ::
  "(string \<Rightarrow> 't list) \<Rightarrow> string \<Rightarrow> int \<Rightarrow> int \<Rightarrow> nat list option"
where
  "chunk_token_counts enc text max_tokens overlap =
     map_option (map length) (chunk_windows (enc (replace_newlines text)) max_tokens overlap)"

section \<open>Embedding normalizer (\<open>embed_text\<close>, \<open>LLM.embed\<close>, \<open>safe_embed\<close>)\<close>

text \<open>
  A value of a numpy array or a Python float is a finite number, an infinity or \<open>nan\<close>.
  The sign of a zero is not modelled (the only divisor, a norm, is never a negative
  zero).
\<close>

datatype npfloat = Fin real | PInf | NInf | NaN

fun is_finite :: "npfloat \<Rightarrow> bool" where
  "is_finite (Fin a) = True"
| "is_finite _ = False"

text \<open>
  The floating-point arithmetic is numpy's, not the repository's. What the code relies
  on is taken as a parameter and left unconstrained:
  \<^item> \<open>round32\<close> and \<open>round64\<close> give the 32-bit and the 64-bit float that stands for an
    exact result; it may be an infinity (overflow) or zero (underflow);
  \<^item> \<open>linalg_norm\<close> is \<open>np.linalg.norm\<close> on an array of 32-bit floats, as numpy computes
    it: it may be zero for a vector that is not zero, and infinite for a finite vector.
\<close>

record numpy =
  round32 :: "real \<Rightarrow> npfloat"
  round64 :: "real \<Rightarrow> npfloat"
  linalg_norm :: "npfloat list \<Rightarrow> npfloat"

text \<open>\<open>np.array(..., dtype=np.float32)\<close> on one value.\<close>

fun cast32 :: "numpy \<Rightarrow> npfloat \<Rightarrow> npfloat" where
  "cast32 np (Fin a) = round32 np a"
| "cast32 np x = x"

text \<open>
  Division of floats. Nothing is raised at a zero divisor: the quotient is \<open>nan\<close> or an
  infinity. \<open>r\<close> rounds the exact quotient of two finite values.
\<close>

fun np_div :: "(real \<Rightarrow> npfloat) \<Rightarrow> npfloat \<Rightarrow> npfloat \<Rightarrow> npfloat" where
  "np_div r NaN _ = NaN"
| "np_div r _ NaN = NaN"
| "np_div r (Fin a) (Fin b) =
     (if b \<noteq> 0 then r (a / b)
      else if a = 0 then NaN
      else if 0 < a then PInf else NInf)"
| "np_div r (Fin a) _ = Fin 0"
| "np_div r PInf (Fin b) = (if b < 0 then NInf else PInf)"
| "np_div r NInf (Fin b) = (if b < 0 then PInf else NInf)"
| "np_div r _ _ = NaN"

fun np_add :: "(real \<Rightarrow> npfloat) \<Rightarrow> npfloat \<Rightarrow> npfloat \<Rightarrow> npfloat" where
  "np_add r (Fin a) (Fin b) = r (a + b)"
| "np_add r NaN _ = NaN"
| "np_add r _ NaN = NaN"
| "np_add r PInf NInf = NaN"
| "np_add r NInf PInf = NaN"
| "np_add r PInf _ = PInf"
| "np_add r _ PInf = PInf"
| "np_add r NInf _ = NInf"
| "np_add r _ NInf = NInf"

text \<open>\<open>embedding / np.linalg.norm(embedding)\<close> on an array of 32-bit floats.\<close>

definition normalize :: "numpy \<Rightarrow> npfloat list \<Rightarrow> npfloat list" where
  "normalize np embedding =
     map (\<lambda>x. np_div (round32 np) x (linalg_norm np embedding)) embedding"

text \<open>
  \<open>embed_text\<close> of \<open>create_vector_db_openai.py\<close> and \<open>LLM.embed\<close> of \<open>llm.py\<close>. The call
  to the embedding service is the parameter \<open>api\<close>: it returns the list of Python floats
  of the response, or the exception the client raised. The list is cast to 32-bit floats
  and divided by its norm. Neither function has a branch on the norm.
\<close>

definition embed_text ::
  "numpy \<Rightarrow> (string \<Rightarrow> error + npfloat list) \<Rightarrow> string \<Rightarrow> error + npfloat list"
where
  "embed_text np api text =
     (case api (replace_newlines text) of
        Inl e \<Rightarrow> Inl e
      | Inr resp \<Rightarrow>
          (let embedding = map (cast32 np) resp in Inr (normalize np embedding)))"

definition LLM_embed ::
  "numpy \<Rightarrow> (string \<Rightarrow> error + npfloat list) \<Rightarrow> string \<Rightarrow> error + npfloat list"
where
  "LLM_embed np api text =
     (case api text of
        Inl e \<Rightarrow> Inl e
      | Inr resp \<Rightarrow>
          (let q_emb = map (cast32 np) resp in Inr (normalize np q_emb)))"

text \<open>
  \<open>((np.array(left) + np.array(right)) / 2).tolist()\<close>, on arrays of 64-bit floats. The
  two lists are embeddings of one model and so of one length; numpy refuses to add
  arrays of different lengths (broadcasting of a one-element array is not modelled).
\<close>

definition np_average :: "numpy \<Rightarrow> npfloat list \<Rightarrow> npfloat list \<Rightarrow> error + npfloat list" where
  "np_average np left right =
     (if length left = length right
      then Inr (map (\<lambda>(a, b). np_div (round64 np) (np_add (round64 np) a b) (Fin 2))
                  (zip left right))
      else Inl ValueError)"

text \<open>
  \<open>safe_embed\<close> of \<open>create_vector_db_openai.py\<close>. The recursion has no floor of its own:
  Python ends it with \<open>RecursionError\<close> when the interpreter's stack is used up. The first
  argument is the number of frames still available; \<open>RecursionError\<close> is not a
  \<open>BadRequestError\<close>, so no handler on the way up catches it.
\<close>

fun safe_embed ::
  "nat \<Rightarrow> numpy \<Rightarrow> (string \<Rightarrow> error + npfloat list) \<Rightarrow> string \<Rightarrow> error + npfloat list"
where
  "safe_embed 0 np api text = Inl RecursionError"
| "safe_embed (Suc depth) np api text =
     (case embed_text np api text of
        Inr v \<Rightarrow> Inr v
      | Inl (BadRequestError msg) \<Rightarrow>
          (if sublist ''maximum context length'' msg then
             (let mid = length text div 2 in
              case safe_embed depth np api (take mid text) of
                Inl e \<Rightarrow> Inl e
              | Inr left \<Rightarrow>
                  (case safe_embed depth np api (drop mid text) of
                     Inl e \<Rightarrow> Inl e
                   | Inr right \<Rightarrow> np_average np left right))
           else Inl (BadRequestError msg))
      | Inl e \<Rightarrow> Inl e)"

text \<open>
  \<open>embed_text\<close> and \<open>safe_embed\<close> of \<open>create_vector_db_manual.py\<close>. Here \<open>embed_text\<close>
  wraps its whole body in \<open>try ... except Exception\<close> and returns \<open>None\<close> on any failure
  of the local model \<open>encode\<close>, so it never raises. \<open>safe_embed\<close> keeps its own handler;
  \<open>if left and right\<close> is true for two non-empty lists.
\<close>

definition embed_text_manual ::
  "numpy \<Rightarrow> (string \<Rightarrow> error + npfloat list) \<Rightarrow> string \<Rightarrow> error + npfloat list option"
where
  "embed_text_manual np encode text =
     (case encode (replace_newlines text) of
        Inl e \<Rightarrow> Inr None
      | Inr resp \<Rightarrow>
          (let embedding = map (cast32 np) resp in Inr (Some (normalize np embedding))))"

fun safe_embed_manual ::
  "nat \<Rightarrow> numpy \<Rightarrow> (string \<Rightarrow> error + npfloat list) \<Rightarrow> string
     \<Rightarrow> error + npfloat list option"
where
  "safe_embed_manual 0 np encode text = Inl RecursionError"
| "safe_embed_manual (Suc depth) np encode text =
     (case embed_text_manual np encode text of
        Inr r \<Rightarrow> Inr r
      | Inl e \<Rightarrow>
          (if 5000 < length text then
             (let mid = length text div 2 in
              case safe_embed_manual depth np encode (take mid text) of
                Inl e' \<Rightarrow> Inl e'
              | Inr left \<Rightarrow>
                  (case safe_embed_manual depth np encode (drop mid text) of
                     Inl e' \<Rightarrow> Inl e'
                   | Inr right \<Rightarrow>
                       (case (left, right) of
                          (Some l, Some r) \<Rightarrow>
                            (if l \<noteq> [] \<and> r \<noteq> [] then map_sum id Some (np_average np l r)
                             else Inr None)
                        | _ \<Rightarrow> Inr None)))
           else Inr None))"

text \<open>
  Unit Euclidean norm of a returned vector, as a property of its values: all components
  finite, and the squares summing to 1.
\<close>

fun fin_values :: "npfloat list \<Rightarrow> real list option" where
  "fin_values [] = Some []"
| "fin_values (Fin a # xs) = map_option ((#) a) (fin_values xs)"
| "fin_values (_ # xs) = None"

definition euclidean_norm :: "real list \<Rightarrow> real" where
  "euclidean_norm v = sqrt (sum_list (map (\<lambda>x. x * x) v))"

definition unit_norm :: "npfloat list \<Rightarrow> bool" where
  "unit_norm v = (case fin_values v of None \<Rightarrow> False | Some rs \<Rightarrow> euclidean_norm rs = 1)"

text \<open>
  One instance of the arithmetic, for the concrete inputs below. \<open>overflow32\<close> and
  \<open>overflow64\<close> give the float numpy gives for a number the format represents exactly
  and for a number of magnitude \<open>2 ^ 128\<close> (\<open>2 ^ 1024\<close>) or more, which overflows to an
  infinity. \<open>exact_norm\<close> is the norm numpy returns when the squares, their sum and its
  root are exact (as for entries 0 and 1) or when an entry is infinite or \<open>nan\<close>.
\<close>

definition overflow32 :: "real \<Rightarrow> npfloat" where
  "overflow32 a = (if 2 ^ 128 \<le> a then PInf else if a \<le> - (2 ^ 128) then NInf else Fin a)"

definition overflow64 :: "real \<Rightarrow> npfloat" where
  "overflow64 a = (if 2 ^ 1024 \<le> a then PInf else if a \<le> - (2 ^ 1024) then NInf else Fin a)"

definition exact_norm :: "npfloat list \<Rightarrow> npfloat" where
  "exact_norm v =
     (case fin_values v of
        Some rs \<Rightarrow> Fin (euclidean_norm rs)
      | None \<Rightarrow> if NaN \<in> set v then NaN else PInf)"

definition exact_numpy :: numpy where
  "exact_numpy = \<lparr>round32 = overflow32, round64 = overflow64, linalg_norm = exact_norm\<rparr>"

section \<open>Vector index (\<open>FAISSIndex\<close>, \<open>faiss_index.py\<close>)\<close>

subsection \<open>Python lists and dictionaries\<close>

text \<open>
  A metadata record is a \<open>Dict\<close> read from JSON: string keys, in insertion order, with
  string or integer values. \<open>m[key]\<close> raises \<open>KeyError\<close> for a missing key, and
  \<open>xs[i]\<close> raises \<open>IndexError\<close> out of range, a negative \<open>i\<close> counting from the end.
\<close>

datatype jval = JStr string | JInt int

type_synonym pydict = "(string \<times> jval) list"

definition dict_get :: "pydict \<Rightarrow> string \<Rightarrow> error + jval" where
  "dict_get m k = (case map_of m k of None \<Rightarrow> Inl (KeyError k) | Some v \<Rightarrow> Inr v)"

definition py_index :: "'a list \<Rightarrow> int \<Rightarrow> error + 'a" where
  "py_index xs i =
     (if 0 \<le> i \<and> i < int (length xs) then Inr (xs ! nat i)
      else if i < 0 \<and> - int (length xs) \<le> i then Inr (xs ! nat (int (length xs) + i))
      else Inl IndexError)"

subsection \<open>The library index \<open>faiss.IndexFlatIP\<close>\<close>

text \<open>
  Modelled from the spec: the library faiss is not part of the repository. Its flat
  inner-product index is the exact scan of section 4.3: it keeps the added rows in order,
  \<open>add\<close> asserts that the rows have the index's dimension before it stores anything, and
  \<open>search\<close> scores the query against every stored row and returns exactly \<open>k\<close> pairs of
  position and score, best first, equal scores by ascending position. Slots for which
  no stored row is left hold position \<open>-1\<close> and the lowest 32-bit float.
\<close>

record flat_index =
  ix_d :: nat
  ix_xb :: "real list list"

definition IndexFlatIP :: "nat \<Rightarrow> flat_index" where
  "IndexFlatIP edim = \<lparr>ix_d = edim, ix_xb = []\<rparr>"

definition ntotal :: "flat_index \<Rightarrow> nat" where
  "ntotal ix = length (ix_xb ix)"

definition index_add :: "flat_index \<Rightarrow> real list list \<Rightarrow> error + flat_index" where
  "index_add ix x =
     (if list_all (\<lambda>row. length row = ix_d ix) x
      then Inr (ix\<lparr>ix_xb := ix_xb ix @ x\<rparr>)
      else Inl AssertionError)"

definition inner_product :: "real list \<Rightarrow> real list \<Rightarrow> real" where
  "inner_product q v = sum_list (map (\<lambda>(a, b). a * b) (zip q v))"

definition FLT_LOWEST :: real where
  "FLT_LOWEST = - (2 ^ 128 - 2 ^ 104)"

definition scores :: "flat_index \<Rightarrow> real list \<Rightarrow> (int \<times> real) list" where
  "scores ix q = map (\<lambda>(i, v). (int i, inner_product q v)) (enumerate 0 (ix_xb ix))"

definition rank_key :: "int \<times> real \<Rightarrow> real \<times> int" where
  "rank_key hit = (- snd hit, fst hit)"

definition index_search :: "flat_index \<Rightarrow> real list \<Rightarrow> nat \<Rightarrow> error + (int \<times> real) list" where
  "index_search ix q k =
     (if length q \<noteq> ix_d ix \<or> k = 0 then Inl AssertionError
      else
        (let ranked = sort_key rank_key (scores ix q)
         in Inr (take k ranked @ replicate (k - length ranked) (- 1, FLT_LOWEST))))"

subsection \<open>The persisted files\<close>

text \<open>
  The file system maps a path to what a file holds: an index written by
  \<open>faiss.write_index\<close>, a metadata list written by \<open>json.dump\<close>, or something else.
  The two formats are the libraries' own; reading back what was written gives the value
  written. \<open>faiss.read_index\<close> raises on a file that is not an index, \<open>json.load\<close> on
  one that is not JSON.
\<close>

datatype file_content = FaissFile flat_index | JsonFile "pydict list" | OtherFile string

type_synonym filesystem = "string \<Rightarrow> file_content option"

definition path_exists :: "filesystem \<Rightarrow> string \<Rightarrow> bool" where
  "path_exists fs p = (fs p \<noteq> None)"

definition read_index :: "filesystem \<Rightarrow> string \<Rightarrow> error + flat_index" where
  "read_index fs p = (case fs p of Some (FaissFile ix) \<Rightarrow> Inr ix | _ \<Rightarrow> Inl RuntimeError)"

definition json_load :: "filesystem \<Rightarrow> string \<Rightarrow> error + pydict list" where
  "json_load fs p = (case fs p of Some (JsonFile ms) \<Rightarrow> Inr ms | _ \<Rightarrow> Inl JSONDecodeError)"

subsection \<open>The class \<open>FAISSIndex\<close>\<close>

record FAISSIndex =
  embed_dim :: nat
  index_path :: string
  meta_path :: string
  index :: flat_index
  metadata :: "pydict list"
  similarity_threshold :: real

text \<open>
  A method that mutates the object returns its outcome together with the object as the
  call leaves it, so that what an exception leaves behind is part of the model.
\<close>

definition load_index :: "FAISSIndex \<Rightarrow> filesystem \<Rightarrow> (error + unit) \<times> FAISSIndex" where
  "load_index self fs =
     (if path_exists fs (index_path self) \<and> path_exists fs (meta_path self) then
        (case read_index fs (index_path self) of
           Inl e \<Rightarrow> (Inl e, self)
         | Inr ix \<Rightarrow>
             (case json_load fs (meta_path self) of
                Inl e \<Rightarrow> (Inl e, self\<lparr>index := ix\<rparr>)
              | Inr ms \<Rightarrow> (Inr (), self\<lparr>index := ix, metadata := ms\<rparr>)))
      else (Inr (), self))"

text \<open>\<open>__init__\<close>: the fields are set, then \<open>load_index\<close> runs; its exception is the constructor's.\<close>

definition empty_index :: "nat \<Rightarrow> string \<Rightarrow> string \<Rightarrow> real \<Rightarrow> FAISSIndex" where
  "empty_index edim ipath mpath threshold =
     \<lparr>embed_dim = edim, index_path = ipath, meta_path = mpath,
      index = IndexFlatIP edim, metadata = [], similarity_threshold = threshold\<rparr>"

definition FAISSIndex_init ::
  "nat \<Rightarrow> string \<Rightarrow> string \<Rightarrow> real \<Rightarrow> filesystem \<Rightarrow> error + FAISSIndex"
where
  "FAISSIndex_init edim ipath mpath threshold fs =
     (case load_index (empty_index edim ipath mpath threshold) fs of
        (Inl e, _) \<Rightarrow> Inl e
      | (Inr _, self) \<Rightarrow> Inr self)"

definition add_embeddings ::
  "FAISSIndex \<Rightarrow> real list list \<Rightarrow> pydict list \<Rightarrow> (error + unit) \<times> FAISSIndex"
where
  "add_embeddings self embeddings mds =
     (case index_add (index self) embeddings of
        Inl e \<Rightarrow> (Inl e, self)
      | Inr ix \<Rightarrow> (Inr (), self\<lparr>index := ix, metadata := metadata self @ mds\<rparr>))"

text \<open>A sequence of calls of \<open>add_embeddings\<close>; the first exception ends it.\<close>

fun add_all ::
  "FAISSIndex \<Rightarrow> (real list list \<times> pydict list) list \<Rightarrow> (error + unit) \<times> FAISSIndex"
where
  "add_all self [] = (Inr (), self)"
| "add_all self ((embeddings, mds) # calls) =
     (case add_embeddings self embeddings mds of
        (Inl e, self') \<Rightarrow> (Inl e, self')
      | (Inr _, self') \<Rightarrow> add_all self' calls)"

definition search :: "FAISSIndex \<Rightarrow> real list \<Rightarrow> nat \<Rightarrow> error + (int \<times> real) list" where
  "search self query_embedding k =
     (case index_search (index self) query_embedding k of
        Inl e \<Rightarrow> Inl e
      | Inr found \<Rightarrow>
          Inr (filter (\<lambda>(idx, score). similarity_threshold self \<le> score) found))"

text \<open>
  The loop of \<open>generate_excerpts\<close>, with its two accumulators \<open>seen_texts\<close> and
  \<open>excerpts\<close>.
\<close>

fun excerpts_loop ::
  "pydict list \<Rightarrow> (int \<times> real) list \<Rightarrow> (jval \<times> jval) set \<Rightarrow> (jval \<times> pydict) list
     \<Rightarrow> error + (jval \<times> pydict) list"
where
  "excerpts_loop mds [] seen_texts excerpts = Inr excerpts"
| "excerpts_loop mds ((idx, score) # relevant) seen_texts excerpts =
     (case py_index mds idx of
        Inl e \<Rightarrow> Inl e
      | Inr m \<Rightarrow>
          (case dict_get m ''source'' of
             Inl e \<Rightarrow> Inl e
           | Inr src \<Rightarrow>
               (case dict_get m ''chunk_id'' of
                  Inl e \<Rightarrow> Inl e
                | Inr cid \<Rightarrow>
                    (if (src, cid) \<notin> seen_texts then
                       (case dict_get m ''text'' of
                          Inl e \<Rightarrow> Inl e
                        | Inr txt \<Rightarrow>
                            excerpts_loop mds relevant (insert (src, cid) seen_texts)
                              (excerpts @ [(txt, m)]))
                     else excerpts_loop mds relevant seen_texts excerpts))))"

definition generate_excerpts ::
  "FAISSIndex \<Rightarrow> (int \<times> real) list \<Rightarrow> error + (jval \<times> pydict) list"
where
  "generate_excerpts self relevant = excerpts_loop (metadata self) relevant {} []"

definition save_index :: "FAISSIndex \<Rightarrow> filesystem \<Rightarrow> filesystem" where
  "save_index self fs =
     (fs(index_path self \<mapsto> FaissFile (index self)))(meta_path self \<mapsto> JsonFile (metadata self))"

section \<open>Vocabulary of the statements\<close>

text \<open>
  The stored entries that qualify for a query: position and score of every stored vector
  whose score reaches the threshold, in storage order. A hit ranks before another when
  its score is higher, or equal with a lower position.
\<close>

definition passes :: "FAISSIndex \<Rightarrow> int \<times> real \<Rightarrow> bool" where
  "passes self hit = (similarity_threshold self \<le> snd hit)"

definition qualifying :: "FAISSIndex \<Rightarrow> real list \<Rightarrow> (int \<times> real) list" where
  "qualifying self q = filter (passes self) (scores (index self) q)"

definition ranks_before :: "int \<times> real \<Rightarrow> int \<times> real \<Rightarrow> bool" where
  "ranks_before a b = (snd b < snd a \<or> (snd b = snd a \<and> fst a < fst b))"

text \<open>
  Deduplication as the specification words it: of the records the hits resolve to, in
  rank order, the record at rank \<open>i\<close> is kept when no record at an earlier rank has its
  key \<open>(source, chunk_id)\<close>. \<open>first_occurrences_from\<close> also leaves out the keys of a
  given set. A record that can be resolved to an excerpt has the three keys the loop reads.
\<close>

definition has_keys :: "pydict \<Rightarrow> bool" where
  "has_keys m =
     (map_of m ''source'' \<noteq> None \<and> map_of m ''chunk_id'' \<noteq> None \<and>
      map_of m ''text'' \<noteq> None)"

definition record_key :: "pydict \<Rightarrow> jval \<times> jval" where
  "record_key m = (the (map_of m ''source''), the (map_of m ''chunk_id''))"

definition first_occurrences_from :: "(jval \<times> jval) set \<Rightarrow> pydict list \<Rightarrow> pydict list" where
  "first_occurrences_from seen ms =
     map (\<lambda>i. ms ! i)
       (filter (\<lambda>i. record_key (ms ! i) \<notin> seen \<union> record_key ` set (take i ms))
          [0..<length ms])"

definition first_occurrences :: "pydict list \<Rightarrow> pydict list" where
  "first_occurrences ms = first_occurrences_from {} ms"

definition excerpt_of :: "pydict \<Rightarrow> jval \<times> pydict" where
  "excerpt_of m = (the (map_of m ''text''), m)"

section \<open>The chunker: termination and the 25-token example\<close>

lemma chunk_loop_returns:
  assumes "overlap < max_tokens"
  shows "\<exists>cs. chunk_loop tokens max_tokens overlap start chunks = Some cs"
  using assms
proof (induction "nat (int (length tokens) - start)" arbitrary: start chunks rule: less_induct)
  case less
  show ?case
  proof (cases "start < int (length tokens)")
    case True
    have "nat (int (length tokens) - (start + (max_tokens - overlap)))
            < nat (int (length tokens) - start)"
      using True less.prems by linarith
    from less.hyps[OF this less.prems] show ?thesis
      by (subst chunk_loop.simps) (simp add: True Let_def)
  next
    case False
    then show ?thesis by (subst chunk_loop.simps) simp
  qed
qed

lemma chunk_loop_stuck:
  assumes "chunk_loop tokens max_tokens overlap start chunks = Some cs"
  shows "\<not> (max_tokens \<le> overlap \<and> start < int (length tokens))"
proof (rule chunk_loop.raw_induct
       [where P = "\<lambda>tokens max_tokens overlap start chunks cs.
                     \<not> (max_tokens \<le> overlap \<and> start < int (length tokens))", OF _ assms],
       goal_cases)
  case (1 f toks m ov st chs res)
  show ?case
  proof
    assume bad: "m \<le> ov \<and> st < int (length toks)"
    then have "f toks m ov (st + (m - ov))
                 (chs @ [py_slice toks st (min (st + m) (int (length toks)))]) = Some res"
      using 1(2) by (simp add: Let_def)
    from 1(1)[OF this] bad show False by simp
  qed
qed

lemma chunk_loop_never_returns:
  "max_tokens \<le> overlap \<Longrightarrow> start < int (length tokens) \<Longrightarrow>
     chunk_loop tokens max_tokens overlap start chunks = None"
  using chunk_loop_stuck[of tokens max_tokens overlap start chunks]
  by (cases "chunk_loop tokens max_tokens overlap start chunks") auto

lemma chunk_windows_empty: "chunk_windows [] max_tokens overlap = Some []"
  unfolding chunk_windows_def by (subst chunk_loop.simps) simp

lemma chunk_windows_25:
  "length tokens = 25 \<Longrightarrow>
     chunk_windows tokens 10 2 =
       Some [take 10 tokens, take 10 (drop 8 tokens), take 9 (drop 16 tokens), drop 24 tokens]"
  unfolding chunk_windows_def
  by (subst chunk_loop.simps, simp add: Let_def py_slice_def py_bound_def)+

lemma chunk_by_tokens_terminates:
  assumes "overlap < max_tokens"
  shows "\<exists>chunks. chunk_by_tokens enc dec text max_tokens overlap = Some chunks"
proof -
  from chunk_loop_returns[OF assms]
  obtain cs where "chunk_loop (enc (replace_newlines text)) max_tokens overlap 0 [] = Some cs"
    by blast
  then show ?thesis
    by (simp add: chunk_by_tokens_def chunk_windows_def)
qed

lemma chunk_by_tokens_no_tokens:
  "enc (replace_newlines text) = [] \<Longrightarrow>
     chunk_by_tokens enc dec text max_tokens overlap = Some []"
  by (simp add: chunk_by_tokens_def chunk_windows_empty)

lemma chunk_by_tokens_never_returns:
  "max_tokens \<le> overlap \<Longrightarrow> enc (replace_newlines text) \<noteq> [] \<Longrightarrow>
     chunk_by_tokens enc dec text max_tokens overlap = None"
  by (simp add: chunk_by_tokens_def chunk_windows_def chunk_loop_never_returns)

text \<open>
  C3 at a failing input. With \<open>overlap < max_tokens\<close> the chunker returns on every text
  (\<open>chunk_by_tokens_terminates\<close>). With \<open>overlap \<ge> max_tokens\<close> it does not fail fast:
  for \<open>max_tokens = 1\<close> and the one-token text \<open>a\<close>, with \<open>overlap = 1\<close> as with
  \<open>overlap = 2\<close>, no configuration is rejected and the loop never ends, since \<open>start\<close>
  never reaches the number of tokens.
\<close>

theorem chunk_by_tokens_zero_stride_never_returns:
  "chunk_by_tokens (\<lambda>s. s) (\<lambda>t. t) ''a'' 1 1 = None \<and>
   chunk_by_tokens (\<lambda>s. s) (\<lambda>t. t) ''a'' 1 2 = None"
  by (simp add: chunk_by_tokens_def chunk_windows_def chunk_loop_never_returns
        replace_newlines_def)

text \<open>
  C9, as the code has it: a document of exactly 25 tokens, chunked with \<open>max_tokens = 10\<close>
  and \<open>overlap = 2\<close>, gives exactly 4 chunks, of 10, 10, 9 and 1 tokens (windows starting
  at tokens 0, 8, 16 and 24).
\<close>

theorem chunk_25_tokens:
  assumes "length (enc (replace_newlines text)) = 25"
  shows "chunk_token_counts enc text 10 2 = Some [10, 10, 9, 1] \<and>
         map_option length (chunk_by_tokens enc dec text 10 2) = Some 4"
  using assms
  by (simp add: chunk_token_counts_def chunk_by_tokens_def chunk_windows_25)

theorem chunk_25_tokens_witness:
  "length (replace_newlines ''abcdefghijklmnopqrstuvwxy'') = 25 \<and>
   chunk_token_counts (\<lambda>s. s) ''abcdefghijklmnopqrstuvwxy'' 10 2 = Some [10, 10, 9, 1] \<and>
   map_option length (chunk_by_tokens (\<lambda>s. s) (\<lambda>t. t) ''abcdefghijklmnopqrstuvwxy'' 10 2)
     = Some 4"
proof -
  have h: "length ((\<lambda>s. s) (replace_newlines ''abcdefghijklmnopqrstuvwxy'')) = 25"
    by (simp add: replace_newlines_def)
  show ?thesis
    using h chunk_25_tokens[of "\<lambda>s. s" "''abcdefghijklmnopqrstuvwxy''" "\<lambda>t. t"]
    by simp
qed

text \<open>
  C9 as stated fails: the 25-token document \<open>abcdefghijklmnopqrstuvwxy\<close> (one token per
  character) does not give token counts 10, 10, 7.
\<close>

theorem chunk_25_tokens_counterexample:
  "length (replace_newlines ''abcdefghijklmnopqrstuvwxy'') = 25 \<and>
   chunk_token_counts (\<lambda>s. s) ''abcdefghijklmnopqrstuvwxy'' 10 2 \<noteq> Some [10, 10, 7]"
proof -
  have h: "length (replace_newlines ''abcdefghijklmnopqrstuvwxy'') = 25"
    by (simp add: replace_newlines_def)
  have "chunk_windows (replace_newlines ''abcdefghijklmnopqrstuvwxy'') 10 2 =
          Some [take 10 (replace_newlines ''abcdefghijklmnopqrstuvwxy''),
                take 10 (drop 8 (replace_newlines ''abcdefghijklmnopqrstuvwxy'')),
                take 9 (drop 16 (replace_newlines ''abcdefghijklmnopqrstuvwxy'')),
                drop 24 (replace_newlines ''abcdefghijklmnopqrstuvwxy'')]"
    by (rule chunk_windows_25[OF h])
  then show ?thesis using h by (simp add: chunk_token_counts_def)
qed

section \<open>\<open>add_embeddings\<close>: alignment and frame\<close>

lemma add_embeddings_ok:
  "add_embeddings self embeddings mds = (Inr u, self') \<Longrightarrow>
     self' = self\<lparr>index := (index self)\<lparr>ix_xb := ix_xb (index self) @ embeddings\<rparr>,
                  metadata := metadata self @ mds\<rparr>"
  by (auto simp: add_embeddings_def index_add_def split: if_splits sum.splits)

lemma add_embeddings_fail:
  "add_embeddings self embeddings mds = (Inl e, self') \<Longrightarrow> e = AssertionError \<and> self' = self"
  by (auto simp: add_embeddings_def index_add_def split: if_splits sum.splits)

lemma add_embeddings_right_dimension:
  "list_all (\<lambda>row. length row = ix_d (index self)) embeddings \<Longrightarrow>
     fst (add_embeddings self embeddings mds) = Inr ()"
  by (simp add: add_embeddings_def index_add_def)

lemma add_all_aligned:
  "add_all self calls = (Inr u, self') \<Longrightarrow>
   list_all (\<lambda>(embeddings, mds). length embeddings = length mds) calls \<Longrightarrow>
   ntotal (index self) = length (metadata self) \<Longrightarrow>
   ntotal (index self') = length (metadata self')"
proof (induction calls arbitrary: self)
  case Nil
  then show ?case by simp
next
  case (Cons c calls)
  obtain embeddings mds where c: "c = (embeddings, mds)" by (cases c)
  show ?case
  proof (cases "add_embeddings self embeddings mds")
    case (Pair r s1)
    show ?thesis
    proof (cases r)
      case (Inl e)
      with Pair Cons.prems(1) c show ?thesis by simp
    next
      case (Inr v)
      from add_embeddings_ok[OF Pair[unfolded Inr]] Cons.prems(2,3) c
      have "ntotal (index s1) = length (metadata s1)"
        by (simp add: ntotal_def)
      moreover have "add_all s1 calls = (Inr u, self')"
        using Cons.prems(1) c Pair Inr by simp
      ultimately show ?thesis using Cons.IH Cons.prems(2) by simp
    qed
  qed
qed

text \<open>
  C1, as the code has it: starting from an empty index, after any sequence of successful
  calls of \<open>add_embeddings\<close> that each pass as many vectors as metadata records, the
  number of stored vectors equals the number of metadata records. The method compares no
  lengths: a call whose rows all have the index's dimension succeeds whatever the number
  of metadata records. Its only failure is the library's dimension assertion, and a
  failing call leaves the object as it was.
\<close>

theorem add_embeddings_alignment:
  "(add_all (empty_index edim ipath mpath threshold) calls = (Inr u, self') \<and>
    list_all (\<lambda>(embeddings, mds). length embeddings = length mds) calls \<longrightarrow>
      ntotal (index self') = length (metadata self')) \<and>
   (list_all (\<lambda>row. length row = ix_d (index self)) embeddings \<longrightarrow>
      fst (add_embeddings self embeddings mds) = Inr ()) \<and>
   (add_embeddings self embeddings mds = (Inl e, self'') \<longrightarrow>
      e = AssertionError \<and> self'' = self)"
proof (intro conjI impI)
  assume a: "add_all (empty_index edim ipath mpath threshold) calls = (Inr u, self') \<and>
    list_all (\<lambda>(embeddings, mds). length embeddings = length mds) calls"
  have "ntotal (index (empty_index edim ipath mpath threshold))
          = length (metadata (empty_index edim ipath mpath threshold))"
    by (simp add: empty_index_def IndexFlatIP_def ntotal_def)
  with a show "ntotal (index self') = length (metadata self')"
    using add_all_aligned by blast
next
  assume "list_all (\<lambda>row. length row = ix_d (index self)) embeddings"
  then show "fst (add_embeddings self embeddings mds) = Inr ()"
    by (rule add_embeddings_right_dimension)
next
  assume "add_embeddings self embeddings mds = (Inl e, self'')"
  then show "e = AssertionError" "self'' = self"
    using add_embeddings_fail by blast+
qed

theorem add_embeddings_alignment_witness:
  "fst (add_all (empty_index 2 ''i'' ''m'' 0)
          [([[1, 0]], [[(''source'', JStr ''a'')]]),
           ([[0, 1], [1, 1]], [[(''source'', JStr ''b'')], [(''source'', JStr ''c'')]])]) = Inr () \<and>
   ntotal (index (snd (add_all (empty_index 2 ''i'' ''m'' 0)
          [([[1, 0]], [[(''source'', JStr ''a'')]]),
           ([[0, 1], [1, 1]], [[(''source'', JStr ''b'')], [(''source'', JStr ''c'')]])]))) = 3 \<and>
   length (metadata (snd (add_all (empty_index 2 ''i'' ''m'' 0)
          [([[1, 0]], [[(''source'', JStr ''a'')]]),
           ([[0, 1], [1, 1]], [[(''source'', JStr ''b'')], [(''source'', JStr ''c'')]])]))) = 3 \<and>
   fst (add_embeddings (empty_index 2 ''i'' ''m'' 0) [[1, 0], [0, 1]] []) = Inr () \<and>
   add_embeddings (empty_index 2 ''i'' ''m'' 0) [[1]] [[(''source'', JStr ''a'')]]
     = (Inl AssertionError, empty_index 2 ''i'' ''m'' 0)"
proof -
  let ?calls = "[([[1, 0]], [[(''source'', JStr ''a'')]]),
           ([[0, 1], [1, 1]], [[(''source'', JStr ''b'')], [(''source'', JStr ''c'')]])]
           :: (real list list \<times> pydict list) list"
  let ?r = "add_all (empty_index 2 ''i'' ''m'' 0) ?calls"
  have ok: "fst ?r = Inr ()"
    by (simp add: add_embeddings_def index_add_def empty_index_def IndexFlatIP_def)
  then have run: "?r = (Inr (), snd ?r)" by (metis prod.collapse)
  have al: "list_all (\<lambda>(embeddings, mds). length embeddings = length mds) ?calls" by simp
  have n3: "length (metadata (snd ?r)) = 3"
    by (simp add: add_embeddings_def index_add_def empty_index_def IndexFlatIP_def)
  have dim: "list_all (\<lambda>row. length row = ix_d (index (empty_index 2 ''i'' ''m'' 0)))
               [[1, 0], [0, 1 :: real]]"
    by (simp add: empty_index_def IndexFlatIP_def)
  have bad: "fst (add_embeddings (empty_index 2 ''i'' ''m'' 0) [[1]] [[(''source'', JStr ''a'')]])
               = Inl AssertionError"
    by (simp add: add_embeddings_def index_add_def empty_index_def IndexFlatIP_def)
  then have bad': "add_embeddings (empty_index 2 ''i'' ''m'' 0) [[1]] [[(''source'', JStr ''a'')]]
               = (Inl AssertionError,
                  snd (add_embeddings (empty_index 2 ''i'' ''m'' 0) [[1]] [[(''source'', JStr ''a'')]]))"
    by (metis prod.collapse)
  from add_embeddings_alignment
         [of 2 "''i''" "''m''" 0 ?calls "()" "snd ?r" "empty_index 2 ''i'' ''m'' 0"
             "[[1, 0], [0, 1]]" "[]" ]
       add_embeddings_alignment
         [of 2 "''i''" "''m''" 0 ?calls "()" "snd ?r" "empty_index 2 ''i'' ''m'' 0"
             "[[1]]" "[[(''source'', JStr ''a'')]]" AssertionError
             "snd (add_embeddings (empty_index 2 ''i'' ''m'' 0) [[1]] [[(''source'', JStr ''a'')]])"]
       ok run al n3 dim bad'
  show ?thesis by simp
qed

text \<open>
  C1 as stated fails: two vectors passed with one metadata record are not refused with
  \<open>AlignmentError\<close>; the call succeeds and leaves two vectors beside one record.
\<close>

theorem add_embeddings_mismatch_counterexample:
  "add_embeddings (empty_index 2 ''i'' ''m'' (1 / 2)) [[1, 0], [0, 1]] [[(''source'', JStr ''a'')]]
   = (Inr (),
      (empty_index 2 ''i'' ''m'' (1 / 2))
        \<lparr>index := \<lparr>ix_d = 2, ix_xb = [[1, 0], [0, 1]]\<rparr>,
         metadata := [[(''source'', JStr ''a'')]]\<rparr>)"
  by (simp add: add_embeddings_def index_add_def empty_index_def IndexFlatIP_def)

text \<open>
  C10: a successful call of \<open>add_embeddings\<close> appends exactly the given metadata
  records, in their order, after the stored ones (and the given vectors after the stored
  vectors); what was stored before is unchanged, and so are the index's dimension and the
  fields \<open>embed_dim\<close>, \<open>similarity_threshold\<close>, \<open>index_path\<close> and \<open>meta_path\<close>.
\<close>

theorem add_embeddings_frame:
  assumes "add_embeddings self embeddings mds = (Inr u, self')"
  shows "metadata self' = metadata self @ mds \<and>
         ix_xb (index self') = ix_xb (index self) @ embeddings \<and>
         take (length (metadata self)) (metadata self') = metadata self \<and>
         take (ntotal (index self)) (ix_xb (index self')) = ix_xb (index self) \<and>
         ix_d (index self') = ix_d (index self) \<and>
         embed_dim self' = embed_dim self \<and>
         similarity_threshold self' = similarity_threshold self \<and>
         index_path self' = index_path self \<and>
         meta_path self' = meta_path self"
  using add_embeddings_ok[OF assms] by (simp add: ntotal_def)

theorem add_embeddings_frame_witness:
  "add_embeddings
     ((empty_index 2 ''i'' ''m'' (1 / 2))
        \<lparr>index := \<lparr>ix_d = 2, ix_xb = [[1, 0]]\<rparr>, metadata := [[(''source'', JStr ''a'')]]\<rparr>)
     [[0, 1]] [[(''source'', JStr ''b'')]]
   = (Inr (),
      (empty_index 2 ''i'' ''m'' (1 / 2))
        \<lparr>index := \<lparr>ix_d = 2, ix_xb = [[1, 0], [0, 1]]\<rparr>,
         metadata := [[(''source'', JStr ''a'')], [(''source'', JStr ''b'')]]\<rparr>) \<and>
   index_path ((empty_index 2 ''i'' ''m'' (1 / 2))
        \<lparr>index := \<lparr>ix_d = 2, ix_xb = [[1, 0], [0, 1]]\<rparr>,
         metadata := [[(''source'', JStr ''a'')], [(''source'', JStr ''b'')]]\<rparr>) = ''i''"
proof -
  have h: "add_embeddings
     ((empty_index 2 ''i'' ''m'' (1 / 2))
        \<lparr>index := \<lparr>ix_d = 2, ix_xb = [[1, 0]]\<rparr>, metadata := [[(''source'', JStr ''a'')]]\<rparr>)
     [[0, 1]] [[(''source'', JStr ''b'')]]
   = (Inr (),
      (empty_index 2 ''i'' ''m'' (1 / 2))
        \<lparr>index := \<lparr>ix_d = 2, ix_xb = [[1, 0], [0, 1]]\<rparr>,
         metadata := [[(''source'', JStr ''a'')], [(''source'', JStr ''b'')]]\<rparr>)"
    by (simp add: add_embeddings_def index_add_def empty_index_def)
  show ?thesis using h add_embeddings_frame[OF h] by (simp add: empty_index_def)
qed

section \<open>Persistence: \<open>save_index\<close> and \<open>load_index\<close>\<close>

lemma load_index_pair:
  "fs (index_path self) = Some (FaissFile ix) \<Longrightarrow> fs (meta_path self) = Some (JsonFile ms) \<Longrightarrow>
   load_index self fs = (Inr (), self\<lparr>index := ix, metadata := ms\<rparr>)"
  by (simp add: load_index_def path_exists_def read_index_def json_load_def)

text \<open>
  C5: for an index whose two paths differ, \<open>save_index\<close> followed by the construction
  of a fresh instance on the same paths (which runs \<open>load_index\<close>) gives an index with
  the saved vectors and the saved metadata records, in the same order.
\<close>

theorem save_load_roundtrip:
  assumes "index_path self \<noteq> meta_path self"
  shows "\<exists>self'. FAISSIndex_init edim (index_path self) (meta_path self) threshold
                   (save_index self fs) = Inr self' \<and>
                 ix_xb (index self') = ix_xb (index self) \<and>
                 ix_d (index self') = ix_d (index self) \<and>
                 metadata self' = metadata self"
  using assms
  by (simp add: FAISSIndex_init_def load_index_pair save_index_def empty_index_def)

theorem save_load_roundtrip_witness:
  "''i'' \<noteq> ''m'' \<and>
   (\<exists>self'. FAISSIndex_init 2 ''i'' ''m'' 0
       (save_index
          ((empty_index 2 ''i'' ''m'' (1 / 2))
             \<lparr>index := \<lparr>ix_d = 2, ix_xb = [[1, 0], [0, 1]]\<rparr>,
              metadata := [[(''source'', JStr ''a'')], [(''source'', JStr ''b'')]]\<rparr>)
          (\<lambda>p. None)) = Inr self' \<and>
      ix_xb (index self') = [[1, 0], [0, 1]] \<and>
      metadata self' = [[(''source'', JStr ''a'')], [(''source'', JStr ''b'')]])"
proof -
  let ?s = "(empty_index 2 ''i'' ''m'' (1 / 2))
             \<lparr>index := \<lparr>ix_d = 2, ix_xb = [[1, 0], [0, 1]]\<rparr>,
              metadata := [[(''source'', JStr ''a'')], [(''source'', JStr ''b'')]]\<rparr>"
  have h: "index_path ?s \<noteq> meta_path ?s" by (simp add: empty_index_def)
  show ?thesis
    using h save_load_roundtrip[OF h, of 2 0 "\<lambda>p. None"]
    by (auto simp: empty_index_def)
qed

text \<open>
  C6, as the code has it: \<open>load_index\<close> compares no counts. For every pair of persisted
  files, an index file and a metadata file, it succeeds and the object then holds exactly
  the persisted vectors and exactly the persisted records, also when their numbers differ.
\<close>

theorem load_index_no_count_check:
  assumes "fs (index_path self) = Some (FaissFile ix)"
      and "fs (meta_path self) = Some (JsonFile ms)"
  shows "load_index self fs = (Inr (), self\<lparr>index := ix, metadata := ms\<rparr>) \<and>
         ntotal (index (snd (load_index self fs))) = length (ix_xb ix) \<and>
         length (metadata (snd (load_index self fs))) = length ms"
  using load_index_pair[OF assms] by (simp add: ntotal_def)

theorem load_index_no_count_check_witness:
  "load_index (empty_index 1 ''i'' ''m'' 0)
     [''i'' \<mapsto> FaissFile \<lparr>ix_d = 1, ix_xb = [[1]]\<rparr>, ''m'' \<mapsto> JsonFile []]
   = (Inr (), (empty_index 1 ''i'' ''m'' 0)\<lparr>index := \<lparr>ix_d = 1, ix_xb = [[1]]\<rparr>, metadata := []\<rparr>)"
proof -
  let ?fs = "[''i'' \<mapsto> FaissFile \<lparr>ix_d = 1, ix_xb = [[1]]\<rparr>, ''m'' \<mapsto> JsonFile []]"
  have i: "?fs (index_path (empty_index 1 ''i'' ''m'' 0)) = Some (FaissFile \<lparr>ix_d = 1, ix_xb = [[1]]\<rparr>)"
    by (simp add: empty_index_def)
  have m: "?fs (meta_path (empty_index 1 ''i'' ''m'' 0)) = Some (JsonFile [])"
    by (simp add: empty_index_def)
  from load_index_no_count_check[OF i m] show ?thesis by (rule conjunct1)
qed

text \<open>
  C6 as stated fails: an index file of two vectors beside a metadata file of one record
  is loaded as it is; the constructor raises no \<open>CorruptIndexError\<close> and the index is
  not empty.
\<close>

theorem load_index_mismatch_counterexample:
  "FAISSIndex_init 1 ''i'' ''m'' 0
     [''i'' \<mapsto> FaissFile \<lparr>ix_d = 1, ix_xb = [[1], [1]]\<rparr>,
      ''m'' \<mapsto> JsonFile [[(''source'', JStr ''a'')]]]
   = Inr ((empty_index 1 ''i'' ''m'' 0)
            \<lparr>index := \<lparr>ix_d = 1, ix_xb = [[1], [1]]\<rparr>,
             metadata := [[(''source'', JStr ''a'')]]\<rparr>)"
  by (simp add: FAISSIndex_init_def load_index_def path_exists_def read_index_def
        json_load_def empty_index_def)

section \<open>\<open>search\<close>: the best qualifying entries, in rank order\<close>

lemma filter_take_sorted:
  "sorted (map rank_key xs) \<Longrightarrow>
     filter (\<lambda>(idx, score). thr \<le> score) (take k xs) = take k (filter (\<lambda>(idx, score). thr \<le> score) xs)"
proof (induction xs arbitrary: k)
  case Nil
  then show ?case by simp
next
  case (Cons x xs)
  obtain i s where x: "x = (i, s)" by (cases x)
  show ?case
  proof (cases k)
    case 0
    then show ?thesis by simp
  next
    case (Suc k')
    show ?thesis
    proof (cases "thr \<le> s")
      case True
      with Cons Suc x show ?thesis by simp
    next
      case False
      have "\<forall>y\<in>set xs. \<not> thr \<le> snd y"
      proof
        fix y assume "y \<in> set xs"
        with Cons.prems have "rank_key x \<le> rank_key y" by simp
        then have "snd y \<le> s" using x by (auto simp: rank_key_def less_eq_prod_def)
        with False show "\<not> thr \<le> snd y" by simp
      qed
      then have none: "filter (\<lambda>(idx, score). thr \<le> score) xs = []"
        by (auto simp: filter_empty_conv)
      have "filter (\<lambda>(idx, score). thr \<le> score) (take k' xs) = []"
        using \<open>\<forall>y\<in>set xs. \<not> thr \<le> snd y\<close>
        by (fastforce simp: filter_empty_conv dest: in_set_takeD)
      with none False Suc x show ?thesis by simp
    qed
  qed
qed

lemma distinct_scores: "distinct (map fst (scores ix q))"
proof -
  have "map fst (scores ix q) = map (int \<circ> fst) (enumerate 0 (ix_xb ix))"
    by (simp add: scores_def case_prod_unfold comp_def)
  also have "\<dots> = map int (map fst (enumerate 0 (ix_xb ix)))"
    by (simp only: map_map)
  finally show ?thesis by (simp add: distinct_map)
qed

lemma inj_rank_key: "inj rank_key"
  by (auto simp: inj_on_def rank_key_def prod_eq_iff)

lemma search_eq:
  assumes "1 \<le> k" "length q = ix_d (index self)" "FLT_LOWEST < similarity_threshold self"
  shows "search self q k = Inr (take k (sort_key rank_key (qualifying self q)))"
proof -
  let ?P = "\<lambda>(idx, score). similarity_threshold self \<le> score"
  let ?xs = "sort_key rank_key (scores (index self) q)"
  have P: "?P = passes self" by (auto simp: passes_def)
  have pad: "filter ?P (replicate n (- 1, FLT_LOWEST)) = []" for n
    using assms(3) by (induction n) auto
  have "filter ?P (take k ?xs) = take k (filter ?P ?xs)"
    by (rule filter_take_sorted) simp
  also have "filter ?P ?xs = sort_key rank_key (filter ?P (scores (index self) q))"
    by (rule filter_sort)
  finally have "filter ?P (take k ?xs) = take k (sort_key rank_key (qualifying self q))"
    by (simp add: qualifying_def P)
  with pad assms(1,2) show ?thesis
    by (simp add: search_def index_search_def Let_def)
qed

lemma ranked_sorted:
  assumes "distinct (map fst ys)"
  shows "sorted_wrt ranks_before (take k (sort_key rank_key ys))"
proof -
  let ?zs = "take k (sort_key rank_key ys)"
  have "distinct ys" using assms by (rule distinct_map[THEN iffD1, THEN conjunct1])
  then have "distinct (map rank_key ?zs)"
    by (simp add: distinct_map inj_on_subset[OF inj_rank_key])
  moreover have "sorted (map rank_key ?zs)"
    by (simp add: take_map[symmetric] sorted_wrt_take)
  ultimately have "sorted_wrt (<) (map rank_key ?zs)"
    by (simp add: strict_sorted_iff)
  then have "sorted_wrt (\<lambda>a b. rank_key a < rank_key b) ?zs"
    by (simp add: sorted_wrt_map)
  then show ?thesis
    by (rule sorted_wrt_mono_rel[rotated])
       (auto simp: rank_key_def ranks_before_def less_prod_def)
qed

text \<open>
  C2: for a query of the index's dimension, \<open>k \<ge> 1\<close> and a threshold above the score
  of the library's empty slots, \<open>search\<close> returns at most \<open>k\<close> hits, each with a score
  of at least \<open>similarity_threshold\<close> (the comparison is inclusive), ordered by descending
  score and, among equal scores, by ascending position. The hits are the \<open>k\<close> best of
  the qualifying stored entries, and all of them when no more than \<open>k\<close> qualify. The
  result is a function of the stored vectors, the threshold, the query and \<open>k\<close>: the
  same query on the same stored vectors gives the same ordered result.
\<close>

theorem search_top_k:
  assumes "1 \<le> k"
      and "length q = ix_d (index self)"
      and "FLT_LOWEST < similarity_threshold self"
  shows "\<exists>hits. search self q k = Inr hits \<and>
           length hits \<le> k \<and>
           list_all (\<lambda>(idx, score). similarity_threshold self \<le> score) hits \<and>
           sorted_wrt ranks_before hits \<and>
           set hits \<subseteq> set (qualifying self q) \<and>
           (length (qualifying self q) \<le> k \<longrightarrow> set hits = set (qualifying self q)) \<and>
           hits = take k (sort_key rank_key (qualifying self q)) \<and>
           (\<forall>other. index other = index self \<and>
                    similarity_threshold other = similarity_threshold self \<longrightarrow>
                    search other q k = Inr hits)"
proof -
  let ?hits = "take k (sort_key rank_key (qualifying self q))"
  have eq: "search self q k = Inr ?hits"
    by (rule search_eq[OF assms])
  have sub: "set ?hits \<subseteq> set (qualifying self q)"
    using set_take_subset[of k "sort_key rank_key (qualifying self q)"] by simp
  have thr: "list_all (\<lambda>(idx, score). similarity_threshold self \<le> score) ?hits"
    using sub by (auto simp: list_all_iff qualifying_def passes_def)
  have "distinct (map fst (qualifying self q))"
    unfolding qualifying_def by (rule distinct_map_filter[OF distinct_scores])
  then have srt: "sorted_wrt ranks_before ?hits"
    by (rule ranked_sorted)
  have all: "length (qualifying self q) \<le> k \<longrightarrow> set ?hits = set (qualifying self q)"
    by simp
  have det: "\<forall>other. index other = index self \<and>
                    similarity_threshold other = similarity_threshold self \<longrightarrow>
                    search other q k = Inr ?hits"
  proof (intro allI impI)
    fix other :: FAISSIndex
    assume o: "index other = index self \<and>
               similarity_threshold other = similarity_threshold self"
    have "search other q k = search self q k"
      unfolding search_def using o by (elim conjE) (simp only:)
    with eq show "search other q k = Inr ?hits" by simp
  qed
  from eq thr srt sub all det show ?thesis by simp
qed

theorem search_top_k_witness:
  "(1 :: nat) \<le> 3 \<and> FLT_LOWEST < 1 / 2 \<and>
   search ((empty_index 2 ''i'' ''m'' (1 / 2))
             \<lparr>index := \<lparr>ix_d = 2, ix_xb = [[0, 1], [1, 0], [3 / 5, 4 / 5], [1, 0]]\<rparr>\<rparr>)
      [1, 0] 3
   = Inr [(1, 1), (3, 1), (2, 3 / 5)]"
proof -
  let ?s = "(empty_index 2 ''i'' ''m'' (1 / 2))
             \<lparr>index := \<lparr>ix_d = 2, ix_xb = [[0, 1], [1, 0], [3 / 5, 4 / 5], [1, 0]]\<rparr>\<rparr>"
  have k: "1 \<le> (3::nat)" by simp
  have d: "length [1, 0 :: real] = ix_d (index ?s)" by (simp add: empty_index_def)
  have l: "FLT_LOWEST < 1 / 2" by (simp add: FLT_LOWEST_def)
  then have t: "FLT_LOWEST < similarity_threshold ?s" by (simp add: empty_index_def)
  have q: "qualifying ?s [1, 0] = [(1, 1), (2, 3 / 5), (3, 1)]"
    by (simp add: qualifying_def passes_def scores_def inner_product_def empty_index_def
          enumerate_eq_zip upt_rec)
  have s: "sort_key rank_key [(1, 1), (2, 3 / 5), (3, 1 :: real)]
             = [(1, 1), (3, 1), (2 :: int, 3 / 5)]"
    by (simp add: rank_key_def less_eq_prod_def)
  from search_top_k[OF k d t] obtain hits where
    "search ?s [1, 0] 3 = Inr hits"
    "hits = take 3 (sort_key rank_key (qualifying ?s [1, 0]))"
    by blast
  then have "search ?s [1, 0] 3 = Inr [(1, 1), (3, 1), (2, 3 / 5)]"
    by (simp only: q s) simp
  with k l show ?thesis by simp
qed

text \<open>A store of one vector searched with \<open>k = 3\<close>: the two empty slots are filtered out.\<close>

lemma search_pad_example:
  "search ((empty_index 1 ''i'' ''m'' (1 / 2))
             \<lparr>index := \<lparr>ix_d = 1, ix_xb = [[1]]\<rparr>\<rparr>) [1] 3 = Inr [(0, 1)]"
  by (simp add: search_def index_search_def scores_def inner_product_def empty_index_def
        enumerate_eq_zip rank_key_def FLT_LOWEST_def numeral_3_eq_3)

section \<open>\<open>generate_excerpts\<close>: deduplication by \<open>(source, chunk_id)\<close>\<close>

lemma first_occurrences_from_Nil [simp]: "first_occurrences_from seen [] = []"
  by (simp add: first_occurrences_from_def)

lemma first_occurrences_from_Cons:
  "first_occurrences_from seen (m # ms) =
     (if record_key m \<in> seen then first_occurrences_from seen ms
      else m # first_occurrences_from (insert (record_key m) seen) ms)"
proof -
  have upt: "[0..<length (m # ms)] = 0 # map Suc [0..<length ms]"
    by (simp add: upt_conv_Cons map_Suc_upt del: upt_Suc)
  show ?thesis
  proof (cases "record_key m \<in> seen")
    case True
    then have "(\<lambda>i. record_key (ms ! i) \<notin> seen \<and> record_key (ms ! i) \<noteq> record_key m \<and>
                     record_key (ms ! i) \<notin> record_key ` set (take i ms)) =
               (\<lambda>i. record_key (ms ! i) \<notin> seen \<and>
                     record_key (ms ! i) \<notin> record_key ` set (take i ms))"
      by auto
    then show ?thesis
      unfolding first_occurrences_from_def upt using True
      by (simp add: filter_map comp_def)
  next
    case False
    have "(\<lambda>i. record_key (ms ! i) \<notin> seen \<and> record_key (ms ! i) \<noteq> record_key m \<and>
                record_key (ms ! i) \<notin> record_key ` set (take i ms)) =
          (\<lambda>i. record_key (ms ! i) \<noteq> record_key m \<and> record_key (ms ! i) \<notin> seen \<and>
                record_key (ms ! i) \<notin> record_key ` set (take i ms))"
      by auto
    then show ?thesis
      unfolding first_occurrences_from_def upt using False
      by (simp add: filter_map comp_def)
  qed
qed

lemma excerpts_loop_eq:
  "map (\<lambda>(idx, score). py_index mds idx) hits = map Inr ms \<Longrightarrow> list_all has_keys ms \<Longrightarrow>
     excerpts_loop mds hits seen acc = Inr (acc @ map excerpt_of (first_occurrences_from seen ms))"
proof (induction hits arbitrary: ms seen acc)
  case Nil
  then show ?case by simp
next
  case (Cons h hits)
  obtain idx score where h: "h = (idx, score)" by (cases h)
  from Cons.prems(1) obtain m ms' where ms: "ms = m # ms'"
    and m: "py_index mds idx = Inr m"
    and rest: "map (\<lambda>(idx, score). py_index mds idx) hits = map Inr ms'"
    using h by (cases ms) auto
  from Cons.prems(2) ms have km: "has_keys m" and kr: "list_all has_keys ms'" by auto
  from km obtain src cid tx where
    g: "dict_get m ''source'' = Inr src" "dict_get m ''chunk_id'' = Inr cid"
       "dict_get m ''text'' = Inr tx"
    and k: "record_key m = (src, cid)" and e: "excerpt_of m = (tx, m)"
    by (auto simp: has_keys_def dict_get_def record_key_def excerpt_of_def)
  show ?case
    using Cons.IH[OF rest kr] h ms m g k e
    by (simp add: first_occurrences_from_Cons)
qed

lemma first_occurrences_from_keys:
  "record_key ` set (first_occurrences_from seen ms) = record_key ` set ms - seen"
  by (induction ms arbitrary: seen) (auto simp: first_occurrences_from_Cons)

lemma first_occurrences_from_distinct:
  "distinct (map record_key (first_occurrences_from seen ms))"
proof (induction ms arbitrary: seen)
  case Nil
  then show ?case by simp
next
  case (Cons m ms)
  have "record_key m \<notin> record_key ` set (first_occurrences_from (insert (record_key m) seen) ms)"
    by (simp add: first_occurrences_from_keys)
  with Cons show ?case by (simp add: first_occurrences_from_Cons)
qed


text \<open>
  C7: for hits that resolve to the records \<open>ms\<close> (in rank order), each with the keys
  \<open>source\<close>, \<open>chunk_id\<close> and \<open>text\<close>, \<open>generate_excerpts\<close> returns one excerpt for
  each first occurrence of a key \<open>(source, chunk_id)\<close>, in the order of the first
  occurrences, each carrying the record and its text; later hits with a key already seen
  are dropped. So the keys of the excerpts are distinct and every key of a resolved record
  has exactly one excerpt.
\<close>

theorem generate_excerpts_first_occurrences:
  assumes "map (\<lambda>(idx, score). py_index (metadata self) idx) relevant = map Inr ms"
      and "list_all has_keys ms"
  shows "\<exists>excerpts. generate_excerpts self relevant = Inr excerpts \<and>
           map snd excerpts = first_occurrences ms \<and>
           list_all (\<lambda>(tx, m). map_of m ''text'' = Some tx) excerpts \<and>
           distinct (map (\<lambda>(tx, m). record_key m) excerpts) \<and>
           (\<lambda>(tx, m). record_key m) ` set excerpts = record_key ` set ms"
proof -
  let ?ex = "map excerpt_of (first_occurrences ms)"
  have eq: "generate_excerpts self relevant = Inr ?ex"
    using excerpts_loop_eq[OF assms, of "{}" "[]"]
    by (simp add: generate_excerpts_def first_occurrences_def)
  have snd: "map snd ?ex = first_occurrences ms"
    by (simp add: comp_def excerpt_of_def)
  have "set (first_occurrences ms) \<subseteq> set ms"
    by (auto simp: first_occurrences_def first_occurrences_from_def)
  then have "\<forall>m\<in>set (first_occurrences ms). has_keys m"
    using assms(2) by (auto simp: list_all_iff)
  then have tx: "list_all (\<lambda>(tx, m). map_of m ''text'' = Some tx) ?ex"
    by (auto simp: list_all_iff excerpt_of_def has_keys_def)
  have k: "map (\<lambda>(tx, m). record_key m) ?ex = map record_key (first_occurrences ms)"
    by (simp add: comp_def excerpt_of_def)
  have "distinct (map record_key (first_occurrences ms))"
    unfolding first_occurrences_def by (rule first_occurrences_from_distinct)
  then have d: "distinct (map (\<lambda>(tx, m). record_key m) ?ex)"
    by (simp only: k)
  have "set (map record_key (first_occurrences ms)) = record_key ` set ms"
    unfolding first_occurrences_def by (simp add: first_occurrences_from_keys)
  then have "set (map (\<lambda>(tx, m). record_key m) ?ex) = record_key ` set ms"
    by (simp only: k)
  then have s: "(\<lambda>(tx, m). record_key m) ` set ?ex = record_key ` set ms"
    by (simp only: set_map)
  from eq snd tx d s show ?thesis by blast
qed

theorem generate_excerpts_first_occurrences_witness:
  "generate_excerpts
     ((empty_index 2 ''i'' ''m'' (1 / 2))
        \<lparr>metadata :=
           [[(''text'', JStr ''t0''), (''source'', JStr ''doc1''), (''chunk_id'', JInt 3)],
            [(''text'', JStr ''t1''), (''source'', JStr ''doc2''), (''chunk_id'', JInt 0)],
            [(''text'', JStr ''t0''), (''source'', JStr ''doc1''), (''chunk_id'', JInt 3)]]\<rparr>)
     [(0, 9 / 10), (1, 4 / 5), (2, 7 / 10), (0, 3 / 5)]
   = Inr [(JStr ''t0'', [(''text'', JStr ''t0''), (''source'', JStr ''doc1''), (''chunk_id'', JInt 3)]),
          (JStr ''t1'', [(''text'', JStr ''t1''), (''source'', JStr ''doc2''), (''chunk_id'', JInt 0)])]"
proof -
  let ?m0 = "[(''text'', JStr ''t0''), (''source'', JStr ''doc1''), (''chunk_id'', JInt 3)]"
  let ?m1 = "[(''text'', JStr ''t1''), (''source'', JStr ''doc2''), (''chunk_id'', JInt 0)]"
  let ?s = "(empty_index 2 ''i'' ''m'' (1 / 2))\<lparr>metadata := [?m0, ?m1, ?m0]\<rparr>"
  let ?hits = "[(0, 9 / 10), (1, 4 / 5), (2, 7 / 10), (0, 3 / 5)] :: (int \<times> real) list"
  have r: "map (\<lambda>(idx, score). py_index (metadata ?s) idx) ?hits = map Inr [?m0, ?m1, ?m0, ?m0]"
    by (simp add: py_index_def)
  have k: "list_all has_keys [?m0, ?m1, ?m0, ?m0]"
    by (simp add: has_keys_def)
  have f: "first_occurrences [?m0, ?m1, ?m0, ?m0] = [?m0, ?m1]"
    by (simp add: first_occurrences_def first_occurrences_from_Cons record_key_def)
  from generate_excerpts_first_occurrences[OF r k] obtain excerpts where
    e: "generate_excerpts ?s ?hits = Inr excerpts"
       "map snd excerpts = first_occurrences [?m0, ?m1, ?m0, ?m0]"
       "list_all (\<lambda>(tx, m). map_of m ''text'' = Some tx) excerpts"
    by blast
  from e(2,3) have "excerpts = [(JStr ''t0'', ?m0), (JStr ''t1'', ?m1)]"
    unfolding f by (auto simp: map_eq_Cons_conv)
  with e(1) show ?thesis by simp
qed

section \<open>Normalization: degenerate norms, and the average of \<open>safe_embed\<close>\<close>

lemma np_div_zero_not_finite: "\<not> is_finite (np_div r x (Fin 0))"
  by (cases x) auto

lemma np_div_not_finite_divisor:
  "\<not> is_finite y \<Longrightarrow> np_div r x y = Fin 0 \<or> np_div r x y = NaN"
  by (cases x; cases y) auto

lemma normalize_zero_norm_components:
  "linalg_norm np embedding = Fin 0 \<Longrightarrow>
     list_all (\<lambda>y. \<not> is_finite y) (normalize np embedding)"
  by (simp add: normalize_def list_all_iff np_div_zero_not_finite)

lemma normalize_not_finite_norm_components:
  "\<not> is_finite (linalg_norm np embedding) \<Longrightarrow>
     list_all (\<lambda>y. y = Fin 0 \<or> y = NaN) (normalize np embedding)"
  by (auto simp: normalize_def list_all_iff dest: np_div_not_finite_divisor)

text \<open>
  A norm that underflows: for a vector \<open>(a, 0)\<close> with \<open>a > 0\<close> whose computed norm is
  zero, the result is \<open>(inf, nan)\<close>.
\<close>

lemma normalize_underflow_example:
  "0 < a \<Longrightarrow> round32 np a = Fin a \<Longrightarrow> round32 np 0 = Fin 0 \<Longrightarrow>
   linalg_norm np [Fin a, Fin 0] = Fin 0 \<Longrightarrow>
     embed_text np (\<lambda>t. Inr [Fin a, Fin 0]) text = Inr [PInf, NaN]"
  by (simp add: embed_text_def normalize_def)

text \<open>
  C4, as the code has it: for every input vector whose computed Euclidean norm is zero
  or not finite, the normalization step does not fail. \<open>embed_text\<close> and \<open>LLM.embed\<close>
  have no check of the norm and return the vector of the quotients of the components by
  that norm, of the same length. A vector of norm zero is divided by its norm: every
  component of the result is then \<open>nan\<close> or an infinity. With an infinite or \<open>nan\<close> norm
  every component of the result is 0 or \<open>nan\<close>.
\<close>

theorem normalize_degenerate_norm:
  assumes "linalg_norm np (map (cast32 np) resp) = Fin 0 \<or>
           \<not> is_finite (linalg_norm np (map (cast32 np) resp))"
  shows "(api (replace_newlines text) = Inr resp \<longrightarrow>
            embed_text np api text = Inr (normalize np (map (cast32 np) resp))) \<and>
         (api text = Inr resp \<longrightarrow>
            LLM_embed np api text = Inr (normalize np (map (cast32 np) resp))) \<and>
         length (normalize np (map (cast32 np) resp)) = length resp \<and>
         (linalg_norm np (map (cast32 np) resp) = Fin 0 \<longrightarrow>
            list_all (\<lambda>y. \<not> is_finite y) (normalize np (map (cast32 np) resp))) \<and>
         (\<not> is_finite (linalg_norm np (map (cast32 np) resp)) \<longrightarrow>
            list_all (\<lambda>y. y = Fin 0 \<or> y = NaN) (normalize np (map (cast32 np) resp)))"
  using normalize_zero_norm_components[of np "map (cast32 np) resp"]
        normalize_not_finite_norm_components[of np "map (cast32 np) resp"]
  by (simp add: embed_text_def LLM_embed_def normalize_def)

theorem normalize_degenerate_norm_witness:
  "linalg_norm exact_numpy (map (cast32 exact_numpy) [Fin 0, Fin 0]) = Fin 0 \<and>
   embed_text exact_numpy (\<lambda>t. Inr [Fin 0, Fin 0]) ''query''
     = Inr (normalize exact_numpy (map (cast32 exact_numpy) [Fin 0, Fin 0])) \<and>
   list_all (\<lambda>y. \<not> is_finite y) (normalize exact_numpy (map (cast32 exact_numpy) [Fin 0, Fin 0])) \<and>
   \<not> is_finite (linalg_norm exact_numpy (map (cast32 exact_numpy) [Fin (10 ^ 39), Fin 1])) \<and>
   LLM_embed exact_numpy (\<lambda>t. Inr [Fin (10 ^ 39), Fin 1]) ''query''
     = Inr (normalize exact_numpy (map (cast32 exact_numpy) [Fin (10 ^ 39), Fin 1])) \<and>
   list_all (\<lambda>y. y = Fin 0 \<or> y = NaN)
     (normalize exact_numpy (map (cast32 exact_numpy) [Fin (10 ^ 39), Fin 1]))"
proof -
  have z: "linalg_norm exact_numpy (map (cast32 exact_numpy) [Fin 0, Fin 0]) = Fin 0"
    by (simp add: exact_numpy_def exact_norm_def overflow32_def euclidean_norm_def)
  have i: "linalg_norm exact_numpy (map (cast32 exact_numpy) [Fin (10 ^ 39), Fin 1]) = PInf"
    by (simp add: exact_numpy_def exact_norm_def overflow32_def euclidean_norm_def)
  have z': "linalg_norm exact_numpy (map (cast32 exact_numpy) [Fin 0, Fin 0]) = Fin 0 \<or>
            \<not> is_finite (linalg_norm exact_numpy (map (cast32 exact_numpy) [Fin 0, Fin 0]))"
    using z by simp
  have i': "linalg_norm exact_numpy (map (cast32 exact_numpy) [Fin (10 ^ 39), Fin 1]) = Fin 0 \<or>
            \<not> is_finite
                (linalg_norm exact_numpy (map (cast32 exact_numpy) [Fin (10 ^ 39), Fin 1]))"
    using i by simp
  from normalize_degenerate_norm[OF z', of "\<lambda>t. Inr [Fin 0, Fin 0]" "''query''"]
       normalize_degenerate_norm[OF i', of "\<lambda>t. Inr [Fin (10 ^ 39), Fin 1]" "''query''"]
       z i
  show ?thesis by simp
qed

text \<open>
  C4 as stated fails, for a zero norm and for a norm that is not finite. For the response
  \<open>[0, 0]\<close> the norm is 0 and both functions return \<open>[nan, nan]\<close>; for the response
  \<open>[1e39, 1]\<close> the cast to 32-bit floats gives \<open>[inf, 1]\<close>, the norm is infinite and both
  return \<open>[nan, 0]\<close>. Neither call ends in \<open>DegenerateVectorError\<close>.
\<close>

theorem normalize_degenerate_norm_counterexample:
  "embed_text exact_numpy (\<lambda>t. Inr [Fin 0, Fin 0]) ''query'' = Inr [NaN, NaN] \<and>
   LLM_embed exact_numpy (\<lambda>t. Inr [Fin 0, Fin 0]) ''query'' = Inr [NaN, NaN] \<and>
   linalg_norm exact_numpy (map (cast32 exact_numpy) [Fin 0, Fin 0]) = Fin 0 \<and>
   embed_text exact_numpy (\<lambda>t. Inr [Fin (10 ^ 39), Fin 1]) ''query'' = Inr [NaN, Fin 0] \<and>
   LLM_embed exact_numpy (\<lambda>t. Inr [Fin (10 ^ 39), Fin 1]) ''query'' = Inr [NaN, Fin 0] \<and>
   linalg_norm exact_numpy (map (cast32 exact_numpy) [Fin (10 ^ 39), Fin 1]) = PInf"
  by (simp add: embed_text_def LLM_embed_def normalize_def exact_numpy_def exact_norm_def
        overflow32_def euclidean_norm_def)

text \<open>
  C8 at a failing input: the service refuses the text \<open>ab\<close> for its length and embeds
  the halves \<open>a\<close> and \<open>b\<close> as the unit vectors \<open>[1, 0]\<close> and \<open>[0, 1]\<close>.
  \<open>safe_embed\<close> returns their average \<open>[1/2, 1/2]\<close> as it is, which is not of unit
  norm: the average is not normalized again.
\<close>

theorem safe_embed_average_not_unit:
  "safe_embed 2 exact_numpy
     (\<lambda>t. if t = ''ab'' then Inl (BadRequestError ''maximum context length'')
          else if t = ''a'' then Inr [Fin 1, Fin 0] else Inr [Fin 0, Fin 1]) ''ab''
   = Inr [Fin (1 / 2), Fin (1 / 2)] \<and> \<not> unit_norm [Fin (1 / 2), Fin (1 / 2)]"
  by (simp add: numeral_2_eq_2 embed_text_def replace_newlines_def sublist_code normalize_def
        exact_numpy_def exact_norm_def overflow32_def overflow64_def euclidean_norm_def
        np_average_def unit_norm_def)

text \<open>The path without a failure does return a unit vector.\<close>

lemma embed_text_unit_example:
  "embed_text exact_numpy (\<lambda>t. Inr [Fin 0, Fin 1]) ''a'' = Inr [Fin 0, Fin 1] \<and>
   unit_norm [Fin 0, Fin 1]"
  by (simp add: embed_text_def normalize_def exact_numpy_def exact_norm_def overflow32_def
        euclidean_norm_def unit_norm_def)

text \<open>
  The variant of \<open>create_vector_db_manual.py\<close> never reaches its splitting branch: its
  \<open>embed_text\<close> turns every failure into \<open>None\<close>, which \<open>safe_embed\<close> returns.
\<close>

lemma safe_embed_manual_never_splits:
  "safe_embed_manual (Suc depth) np encode text = embed_text_manual np encode text"
  by (simp add: embed_text_manual_def Let_def split: sum.splits)

lemma safe_embed_manual_failure:
  "safe_embed_manual (Suc depth) np (\<lambda>t. Inl (OtherError ''input too long'')) text = Inr None"
  by (simp add: embed_text_manual_def)

end
